theory Spec2Isabelle
  imports Main "HOL-Library.AList" "HOL-Library.Multiset"
begin

section \<open>JSON values and the JavaScript operations applied to them\<close>

text \<open>
  Everything the service keeps lives in \<^verbatim>\<open>localStorage\<close> as JSON text, and every record it
  handles is what \<^verbatim>\<open>JSON.parse\<close> returns or what a caller passes in to be stringified.
  A value is therefore a JSON value; \<^verbatim>\<open>undefined\<close> (a missing property) is \<open>None\<close> of
  \<open>json option\<close>. Numbers are the integers (record fields such as \<^verbatim>\<open>checkInMs\<close> are
  millisecond counts); fractions and integers beyond \<open>10^21\<close>, which JavaScript prints in
  exponent form, are outside the model. An object is the association list of its own
  properties, read with \<open>map_of\<close>.
\<close>

datatype json =
    JNull
  | JBool bool
  | JNum int
  | JStr string
  | JArr "json list"
  | JObj "(string \<times> json) list"

type_synonym obj = "(string \<times> json) list"

datatype error = TypeError | SyntaxError

text \<open>
  \<^verbatim>\<open>item.name\<close> for an item that is not \<^verbatim>\<open>null\<close>, for the data property names the service
  reads (\<^verbatim>\<open>id\<close>, \<^verbatim>\<open>studentId\<close>, \<^verbatim>\<open>date\<close>, \<^verbatim>\<open>event\<close>, \<^verbatim>\<open>_synced\<close>, \<^verbatim>\<open>synced\<close>, \<^verbatim>\<open>type\<close>):
  only an object has them. Reading a property of \<^verbatim>\<open>null\<close> throws a TypeError; each
  function below says where.
\<close>

fun field :: "json \<Rightarrow> string \<Rightarrow> json option" where
  "field (JObj kvs) k = map_of kvs k"
| "field _ k = None"

text \<open>JavaScript truthiness, as \<^verbatim>\<open>if (x)\<close>, \<^verbatim>\<open>x && y\<close> and \<^verbatim>\<open>!x\<close> test it.\<close>

fun truthy :: "json option \<Rightarrow> bool" where
  "truthy None = False"
| "truthy (Some JNull) = False"
| "truthy (Some (JBool b)) = b"
| "truthy (Some (JNum n)) = (n \<noteq> 0)"
| "truthy (Some (JStr s)) = (s \<noteq> [])"
| "truthy (Some (JArr _)) = True"
| "truthy (Some (JObj _)) = True"

text \<open>
  \<^verbatim>\<open>a === b\<close> where \<open>a\<close> belongs to a freshly parsed item and \<open>b\<close> to the caller's
  data: primitives compare by value, and two objects or arrays are never the same
  reference.
\<close>

fun strict_eq :: "json option \<Rightarrow> json option \<Rightarrow> bool" where
  "strict_eq None None = True"
| "strict_eq (Some JNull) (Some JNull) = True"
| "strict_eq (Some (JBool a)) (Some (JBool b)) = (a = b)"
| "strict_eq (Some (JNum a)) (Some (JNum b)) = (a = b)"
| "strict_eq (Some (JStr a)) (Some (JStr b)) = (a = b)"
| "strict_eq _ _ = False"

text \<open>String conversion, as a template literal \<^verbatim>\<open>`${x}`\<close> performs it.\<close>

function decimal :: "nat \<Rightarrow> string" where
  "decimal n = (if n < 10 then [char_of (48 + n)]
                else decimal (n div 10) @ [char_of (48 + n mod 10)])"
  by pat_completeness auto
termination
  by (relation "measure id") auto

declare decimal.simps [simp del]

definition int_string :: "int \<Rightarrow> string" where
  "int_string i = (if i < 0 then CHR ''-'' # decimal (nat (- i)) else decimal (nat i))"

fun join_commas :: "string list \<Rightarrow> string" where
  "join_commas [] = []"
| "join_commas [s] = s"
| "join_commas (s # t # ss) = s @ '','' @ join_commas (t # ss)"

fun to_string :: "json \<Rightarrow> string" where
  "to_string JNull = ''null''"
| "to_string (JBool b) = (if b then ''true'' else ''false'')"
| "to_string (JNum i) = int_string i"
| "to_string (JStr s) = s"
| "to_string (JArr xs) = join_commas (map (\<lambda>x. if x = JNull then [] else to_string x) xs)"
| "to_string (JObj kvs) = ''[object Object]''"

fun template :: "json option \<Rightarrow> string" where
  "template None = ''undefined''"
| "template (Some v) = to_string v"

section \<open>mergeData\<close>

text \<open>
  The inner helper \<^verbatim>\<open>getKey\<close> of \<^verbatim>\<open>mergeData\<close>; \<open>Inr None\<close> is its \<^verbatim>\<open>null\<close>. Every branch
  reads \<^verbatim>\<open>item.studentId\<close> first, so a \<^verbatim>\<open>null\<close> item throws.
\<close>

definition getKey :: "string \<Rightarrow> json \<Rightarrow> error + string option" where
  "getKey uniqueKey item =
     (if item = JNull then Inl TypeError
      else if uniqueKey = ''id'' then
        (if truthy (field item ''studentId'')
           then Inr (Some (''student_'' @ template (field item ''studentId'')))
         else if truthy (field item ''id'')
           then Inr (Some (''id_'' @ template (field item ''id'')))
         else Inr None)
      else if uniqueKey = ''studentId'' then
        (if truthy (field item ''studentId'')
           then Inr (Some (''student_'' @ template (field item ''studentId'')))
         else Inr None)
      else Inr (Some (template (field item ''studentId'') @ ''_'' @
                      template (field item ''date'') @ ''_'' @
                      template (field item ''event''))))"

text \<open>
  One \<^verbatim>\<open>forEach\<close> loop of \<^verbatim>\<open>mergeData\<close>: it threads the set \<^verbatim>\<open>seenKeys\<close> and the array
  \<^verbatim>\<open>merged\<close>. The test \<^verbatim>\<open>key && !seenKeys.has(key)\<close> rejects \<^verbatim>\<open>null\<close> and the empty string.
\<close>

fun addUnseen :: "string \<Rightarrow> json list \<Rightarrow> string set \<times> json list \<Rightarrow>
    error + (string set \<times> json list)" where
  "addUnseen uniqueKey [] acc = Inr acc"
| "addUnseen uniqueKey (item # items) (seenKeys, merged) =
     (case getKey uniqueKey item of
        Inl e \<Rightarrow> Inl e
      | Inr None \<Rightarrow> addUnseen uniqueKey items (seenKeys, merged)
      | Inr (Some key) \<Rightarrow>
          if key \<noteq> [] \<and> key \<notin> seenKeys
          then addUnseen uniqueKey items (insert key seenKeys, merged @ [item])
          else addUnseen uniqueKey items (seenKeys, merged))"

definition mergeData :: "json list \<Rightarrow> json list \<Rightarrow> string \<Rightarrow> error + json list" where
  "mergeData localData firebaseData uniqueKey =
     (case addUnseen uniqueKey localData ({}, []) of
        Inl e \<Rightarrow> Inl e
      | Inr acc \<Rightarrow>
          (case addUnseen uniqueKey firebaseData acc of
             Inl e \<Rightarrow> Inl e
           | Inr (seenKeys, merged) \<Rightarrow> Inr merged))"

text \<open>
  The key of a record under a key spec: the string \<^verbatim>\<open>getKey\<close> computes, \<open>None\<close> when
  \<^verbatim>\<open>getKey\<close> answers \<^verbatim>\<open>null\<close> (or throws). Two records of a list collide when they have the
  same key.
\<close>

definition keyOf :: "string \<Rightarrow> json \<Rightarrow> string option" where
  "keyOf uniqueKey item = (case getKey uniqueKey item of Inr k \<Rightarrow> k | Inl e \<Rightarrow> None)"

text \<open>
  The closed form of one \<^verbatim>\<open>forEach\<close> loop, used in the proofs only: the first record of
  every key that is not yet in \<open>S\<close>, in list order.
\<close>

fun firstOfKey :: "('a \<Rightarrow> string option) \<Rightarrow> string set \<Rightarrow> 'a list \<Rightarrow> 'a list" where
  "firstOfKey f S [] = []"
| "firstOfKey f S (x # xs) =
     (case f x of
        None \<Rightarrow> firstOfKey f S xs
      | Some k \<Rightarrow> if k \<in> S then firstOfKey f S xs else x # firstOfKey f (insert k S) xs)"

text \<open>Within a list, records that share a key are one and the same record.\<close>

definition keyFunctional :: "string \<Rightarrow> json list \<Rightarrow> bool" where
  "keyFunctional uniqueKey xs \<longleftrightarrow>
     (\<forall>x\<in>set xs. \<forall>y\<in>set xs.
        keyOf uniqueKey x = keyOf uniqueKey y \<and> keyOf uniqueKey x \<noteq> None \<longrightarrow> x = y)"

text \<open>A student record, for the worked examples.\<close>

definition student :: "string \<Rightarrow> string \<Rightarrow> json" where
  "student sid name = JObj [(''studentId'', JStr sid), (''studentName'', JStr name)]"

section \<open>Local storage\<close>

text \<open>
  \<^verbatim>\<open>localStorage\<close> maps keys to strings. A stored string is represented by what the service can
  do with it: it is the empty string (falsy, so never parsed), a text \<^verbatim>\<open>JSON.parse\<close> rejects,
  or a text that parses to a JSON value. \<^verbatim>\<open>JSON.stringify\<close> followed by \<^verbatim>\<open>JSON.parse\<close> gives
  the value back, so writing \<^verbatim>\<open>JSON.stringify(v)\<close> stores \<open>JsonText v\<close>. Writes succeed: the
  quota of the browser is not modelled.
\<close>

datatype stored = EmptyText | BadText | JsonText json

type_synonym storage = "string \<Rightarrow> stored option"

datatype pass_state = Awaiting "json list" json "json list"

record state =
  isOnline :: bool
  syncInProgress :: bool
  localStorage :: storage
  firebaseDB :: bool
  firebaseDb :: bool
  passes :: "pass_state list"
  notified :: "bool list"

text \<open>
  The fields \<open>isOnline\<close> and \<open>syncInProgress\<close> are the service's own; \<open>firebaseDB\<close> and
  \<open>firebaseDb\<close> say whether \<^verbatim>\<open>window.firebaseDB\<close> (the database service) and
  \<^verbatim>\<open>window.firebaseDb\<close> (the Firestore handle) are set. \<open>passes\<close> holds the drain passes that
  are suspended at an \<^verbatim>\<open>await\<close>, each with the operations it has gone through, the one it waits
  for and the ones still to come. \<open>notified\<close> logs the \<^verbatim>\<open>offlineStatusChanged\<close> events
  dispatched by \<^verbatim>\<open>triggerStatusUpdate\<close>, with their \<^verbatim>\<open>detail.isOnline\<close>, oldest first.
\<close>

definition pendingSyncKey :: string where
  "pendingSyncKey = ''pendingSyncQueue''"

definition localStoragePrefix :: string where
  "localStoragePrefix = ''offline_''"

text \<open>\<^verbatim>\<open>JSON.parse\<close> of a stored string.\<close>

fun JSON_parse :: "stored \<Rightarrow> error + json" where
  "JSON_parse (JsonText v) = Inr v"
| "JSON_parse EmptyText = Inl SyntaxError"
| "JSON_parse BadText = Inl SyntaxError"

text \<open>Truthiness of what \<^verbatim>\<open>localStorage.getItem\<close> returns: \<^verbatim>\<open>null\<close> and \<^verbatim>\<open>''\<close> are falsy.\<close>

fun present :: "stored option \<Rightarrow> bool" where
  "present None = False"
| "present (Some EmptyText) = False"
| "present (Some _) = True"

text \<open>
  \<^verbatim>\<open>getPendingSyncQueue\<close>: the body of the \<^verbatim>\<open>try\<close>, and the function with its \<^verbatim>\<open>catch\<close>, which
  answers \<^verbatim>\<open>[]\<close>.
\<close>

definition readQueue :: "state \<Rightarrow> error + json" where
  "readQueue s =
     (case localStorage s pendingSyncKey of
        None \<Rightarrow> Inr (JArr [])
      | Some queue \<Rightarrow> if present (Some queue) then JSON_parse queue else Inr (JArr []))"

definition getPendingSyncQueue :: "state \<Rightarrow> error + json" where
  "getPendingSyncQueue s = (case readQueue s of Inl e \<Rightarrow> Inr (JArr []) | Inr v \<Rightarrow> Inr v)"

text \<open>
  \<^verbatim>\<open>getFromLocalStorage\<close>, likewise: the legacy keys are read when the collection's own key
  holds nothing.
\<close>

definition readCollection :: "string \<Rightarrow> state \<Rightarrow> error + json" where
  "readCollection collection s =
     (let key = localStoragePrefix @ collection;
          data = localStorage s key;
          data = (if \<not> present data then
                    (if collection = ''attendance'' then localStorage s ''attendanceRecords''
                     else if collection = ''students'' then localStorage s ''barcodeStudents''
                     else data)
                  else data)
      in case data of
           None \<Rightarrow> Inr (JArr [])
         | Some text \<Rightarrow> if present (Some text) then JSON_parse text else Inr (JArr []))"

definition getFromLocalStorage :: "string \<Rightarrow> state \<Rightarrow> error + json" where
  "getFromLocalStorage collection s =
     (case readCollection collection s of Inl e \<Rightarrow> Inr (JArr []) | Inr v \<Rightarrow> Inr v)"

text \<open>
  Calling an array method (\<^verbatim>\<open>some\<close>, \<^verbatim>\<open>findIndex\<close>, \<^verbatim>\<open>filter\<close>, \<^verbatim>\<open>map\<close>, \<^verbatim>\<open>push\<close>) on a parsed value:
  a TypeError unless the value is an array. The methods themselves stop at the first
  callback that throws.
\<close>

fun asArray :: "json \<Rightarrow> error + json list" where
  "asArray (JArr xs) = Inr xs"
| "asArray _ = Inl TypeError"

fun array_some :: "('a \<Rightarrow> error + bool) \<Rightarrow> 'a list \<Rightarrow> error + bool" where
  "array_some p [] = Inr False"
| "array_some p (x # xs) =
     (case p x of Inl e \<Rightarrow> Inl e | Inr b \<Rightarrow> if b then Inr True else array_some p xs)"

fun array_findIndex :: "('a \<Rightarrow> error + bool) \<Rightarrow> 'a list \<Rightarrow> error + nat option" where
  "array_findIndex p [] = Inr None"
| "array_findIndex p (x # xs) =
     (case p x of
        Inl e \<Rightarrow> Inl e
      | Inr b \<Rightarrow>
          if b then Inr (Some 0)
          else (case array_findIndex p xs of
                  Inl e \<Rightarrow> Inl e
                | Inr None \<Rightarrow> Inr None
                | Inr (Some i) \<Rightarrow> Inr (Some (Suc i))))"

fun array_filter :: "('a \<Rightarrow> error + bool) \<Rightarrow> 'a list \<Rightarrow> error + 'a list" where
  "array_filter p [] = Inr []"
| "array_filter p (x # xs) =
     (case p x of
        Inl e \<Rightarrow> Inl e
      | Inr b \<Rightarrow>
          (case array_filter p xs of
             Inl e \<Rightarrow> Inl e
           | Inr ys \<Rightarrow> Inr (if b then x # ys else ys)))"

fun array_map :: "('a \<Rightarrow> error + 'b) \<Rightarrow> 'a list \<Rightarrow> error + 'b list" where
  "array_map f [] = Inr []"
| "array_map f (x # xs) =
     (case f x of
        Inl e \<Rightarrow> Inl e
      | Inr y \<Rightarrow> (case array_map f xs of Inl e \<Rightarrow> Inl e | Inr ys \<Rightarrow> Inr (y # ys)))"

section \<open>saveToLocalStorage\<close>

text \<open>
  The callback that \<^verbatim>\<open>some\<close> and both \<^verbatim>\<open>findIndex\<close> calls share (the \<^verbatim>\<open>filter\<close> of the delete
  branch returns its negation at every \<^verbatim>\<open>return\<close>). \<^verbatim>\<open>data.id && item.id\<close> reads \<^verbatim>\<open>item.id\<close> only
  when \<^verbatim>\<open>data.id\<close> is truthy, and so for \<^verbatim>\<open>studentId\<close>: a \<^verbatim>\<open>null\<close> item throws only then.
\<close>

definition sameStudent :: "obj \<Rightarrow> json \<Rightarrow> error + bool" where
  "sameStudent data item =
     (if truthy (map_of data ''studentId'') then
        (if item = JNull then Inl TypeError
         else if truthy (field item ''studentId'') then
           (if truthy (map_of data ''date'') \<and> truthy (map_of data ''event'') \<and>
               truthy (field item ''date'') \<and> truthy (field item ''event'')
            then Inr (strict_eq (field item ''studentId'') (map_of data ''studentId'') \<and>
                      strict_eq (field item ''date'') (map_of data ''date'') \<and>
                      strict_eq (field item ''event'') (map_of data ''event''))
            else Inr (strict_eq (field item ''studentId'') (map_of data ''studentId'')))
         else Inr False)
      else Inr False)"

definition sameRecord :: "obj \<Rightarrow> json \<Rightarrow> error + bool" where
  "sameRecord data item =
     (if truthy (map_of data ''id'') then
        (if item = JNull then Inl TypeError
         else if truthy (field item ''id'')
           then Inr (strict_eq (field item ''id'') (map_of data ''id''))
         else sameStudent data item)
      else sameStudent data item)"

definition notSameRecord :: "obj \<Rightarrow> json \<Rightarrow> error + bool" where
  "notSameRecord data item =
     (case sameRecord data item of Inl e \<Rightarrow> Inl e | Inr b \<Rightarrow> Inr (\<not> b))"

text \<open>
  Object spread \<^verbatim>\<open>{...a, ...b}\<close>, and the trailing \<^verbatim>\<open>_synced: v\<close> as it reaches the store: a
  property whose value is \<^verbatim>\<open>undefined\<close> is left out by \<^verbatim>\<open>JSON.stringify\<close>.
\<close>

definition spread :: "obj \<Rightarrow> obj \<Rightarrow> obj" where
  "spread a b = AList.merge a b"

fun ownProperties :: "json \<Rightarrow> obj" where
  "ownProperties (JObj kvs) = kvs"
| "ownProperties _ = []"

definition withSynced :: "json option \<Rightarrow> obj \<Rightarrow> obj" where
  "withSynced v kvs =
     (case v of None \<Rightarrow> AList.delete ''_synced'' kvs | Some b \<Rightarrow> AList.update ''_synced'' b kvs)"

text \<open>
  \<^verbatim>\<open>{ ...data, _synced: data._synced !== undefined ? data._synced : false }\<close>, the new item, and
  \<^verbatim>\<open>{ ...items[index], ...data, _synced: isSynced }\<close>, the merged one. Only an object can be
  the item found (the callback needs a truthy \<^verbatim>\<open>id\<close> or \<^verbatim>\<open>studentId\<close> of it).
\<close>

definition newItem :: "obj \<Rightarrow> json" where
  "newItem data =
     JObj (withSynced (Some (case map_of data ''_synced'' of Some v \<Rightarrow> v | None \<Rightarrow> JBool False))
             data)"

definition mergedItem :: "obj \<Rightarrow> json \<Rightarrow> json" where
  "mergedItem data item =
     (let isSynced = (if map_of data ''_synced'' \<noteq> None then map_of data ''_synced''
                      else field item ''_synced'')
      in JObj (withSynced isSynced (spread (ownProperties item) data)))"

text \<open>
  The three branches on \<^verbatim>\<open>operation\<close>, from the parsed \<^verbatim>\<open>items\<close> to the value that is written
  back. Any other operation leaves \<^verbatim>\<open>items\<close> as it is.
\<close>

definition applyOperation :: "string \<Rightarrow> obj \<Rightarrow> json \<Rightarrow> error + json" where
  "applyOperation operation data items =
     (if operation = ''add'' then
        (case asArray items of
           Inl e \<Rightarrow> Inl e
         | Inr xs \<Rightarrow>
             (case array_some (sameRecord data) xs of
                Inl e \<Rightarrow> Inl e
              | Inr isDuplicate \<Rightarrow>
                  if \<not> isDuplicate then Inr (JArr (xs @ [newItem data]))
                  else
                    (case array_findIndex (sameRecord data) xs of
                       Inl e \<Rightarrow> Inl e
                     | Inr None \<Rightarrow> Inr (JArr xs)
                     | Inr (Some index) \<Rightarrow>
                         Inr (JArr (xs[index := mergedItem data (xs ! index)])))))
      else if operation = ''update'' then
        (case asArray items of
           Inl e \<Rightarrow> Inl e
         | Inr xs \<Rightarrow>
             (case array_findIndex (sameRecord data) xs of
                Inl e \<Rightarrow> Inl e
              | Inr None \<Rightarrow> Inr (JArr (xs @ [newItem data]))
              | Inr (Some index) \<Rightarrow>
                  Inr (JArr (xs[index := mergedItem data (xs ! index)]))))
      else if operation = ''delete'' then
        (case asArray items of
           Inl e \<Rightarrow> Inl e
         | Inr xs \<Rightarrow>
             (case array_filter (notSameRecord data) xs of
                Inl e \<Rightarrow> Inl e
              | Inr ys \<Rightarrow> Inr (JArr ys)))
      else Inr items)"

text \<open>
  The existing items: \<^verbatim>\<open>[]\<close> when the key holds nothing or text that does not parse (the
  inner \<^verbatim>\<open>try\<close>).
\<close>

definition existingItems :: "stored option \<Rightarrow> json" where
  "existingItems existing =
     (case existing of
        None \<Rightarrow> JArr []
      | Some text \<Rightarrow>
          if present (Some text)
          then (case JSON_parse text of Inl e \<Rightarrow> JArr [] | Inr v \<Rightarrow> v)
          else JArr [])"

text \<open>
  \<^verbatim>\<open>saveToLocalStorage\<close>. When the \<^verbatim>\<open>try\<close> block throws, the \<^verbatim>\<open>catch\<close> removes the key and
  stores \<^verbatim>\<open>[data]\<close>; the legacy keys are not written on that path.
\<close>

definition saveToLocalStorage :: "string \<Rightarrow> obj \<Rightarrow> string \<Rightarrow> state \<Rightarrow> state" where
  "saveToLocalStorage collection data operation s =
     (let key = localStoragePrefix @ collection;
          items = existingItems (localStorage s key)
      in case applyOperation operation data items of
           Inr items' \<Rightarrow>
             (let st = (localStorage s)(key \<mapsto> JsonText items');
                  st = (if collection = ''attendance''
                          then st(''attendanceRecords'' \<mapsto> JsonText items')
                        else if collection = ''students''
                          then st(''barcodeStudents'' \<mapsto> JsonText items')
                        else st)
              in s\<lparr>localStorage := st\<rparr>)
         | Inl e \<Rightarrow>
             s\<lparr>localStorage :=
                 ((localStorage s)(key := None))(key \<mapsto> JsonText (JArr [JObj data]))\<rparr>)"

section \<open>markAsSynced and the pending queue\<close>

text \<open>
  The test inside the \<^verbatim>\<open>map\<close> callback of \<^verbatim>\<open>markAsSynced\<close>. It differs from the one of
  \<^verbatim>\<open>saveToLocalStorage\<close>: the \<^verbatim>\<open>studentId\<close> branch does not ask whether the item has one.
\<close>

definition studentCriteria :: "obj \<Rightarrow> json \<Rightarrow> error + bool" where
  "studentCriteria criteria item =
     (if truthy (map_of criteria ''studentId'') then
        (if item = JNull then Inl TypeError
         else if truthy (map_of criteria ''date'') \<and> truthy (map_of criteria ''event'')
           then Inr (strict_eq (field item ''studentId'') (map_of criteria ''studentId'') \<and>
                     strict_eq (field item ''date'') (map_of criteria ''date'') \<and>
                     strict_eq (field item ''event'') (map_of criteria ''event''))
         else Inr (strict_eq (field item ''studentId'') (map_of criteria ''studentId'')))
      else Inr False)"

definition matchesCriteria :: "obj \<Rightarrow> json \<Rightarrow> error + bool" where
  "matchesCriteria criteria item =
     (if truthy (map_of criteria ''id'') then
        (if item = JNull then Inl TypeError
         else if truthy (field item ''id'')
           then Inr (strict_eq (field item ''id'') (map_of criteria ''id''))
         else studentCriteria criteria item)
      else studentCriteria criteria item)"

definition markItem :: "obj \<Rightarrow> json \<Rightarrow> error + (json \<times> bool)" where
  "markItem criteria item =
     (case matchesCriteria criteria item of
        Inl e \<Rightarrow> Inl e
      | Inr match \<Rightarrow>
          if match then Inr (JObj (AList.update ''_synced'' (JBool True) (ownProperties item)), True)
          else Inr (item, False))"

definition markAsSynced :: "string \<Rightarrow> obj \<Rightarrow> state \<Rightarrow> state" where
  "markAsSynced collection criteria s =
     (let key = localStoragePrefix @ collection in
      case localStorage s key of
        None \<Rightarrow> s
      | Some existing \<Rightarrow>
          if \<not> present (Some existing) then s
          else
            (case JSON_parse existing of
               Inl e \<Rightarrow> s
             | Inr items \<Rightarrow>
                 (case asArray items of
                    Inl e \<Rightarrow> s
                  | Inr xs \<Rightarrow>
                      (case array_map (markItem criteria) xs of
                         Inl e \<Rightarrow> s
                       | Inr marked \<Rightarrow>
                           if list_ex snd marked
                           then s\<lparr>localStorage :=
                                    (localStorage s)(key \<mapsto> JsonText (JArr (map fst marked)))\<rparr>
                           else s))))"

text \<open>
  A queued operation as \<^verbatim>\<open>addToPendingQueue\<close> completes it: the caller's \<^verbatim>\<open>type\<close>, \<^verbatim>\<open>data\<close> and
  \<^verbatim>\<open>collection\<close> (\<^verbatim>\<open>null\<close> when none was given), then \<^verbatim>\<open>syncId\<close>, \<^verbatim>\<open>timestamp\<close> and \<^verbatim>\<open>synced: false\<close>.
  The two strings of the stamp come from the clock and \<^verbatim>\<open>Math.random\<close>.
\<close>

type_synonym stamp = "string \<times> string"

definition collectionJson :: "string option \<Rightarrow> json" where
  "collectionJson collectionName = (case collectionName of None \<Rightarrow> JNull | Some c \<Rightarrow> JStr c)"

definition pendingOperation :: "string \<Rightarrow> obj \<Rightarrow> string option \<Rightarrow> stamp \<Rightarrow> json" where
  "pendingOperation operationType data collectionName st =
     JObj [(''type'', JStr operationType), (''data'', JObj data),
           (''collection'', collectionJson collectionName),
           (''syncId'', JStr (fst st)), (''timestamp'', JStr (snd st)),
           (''synced'', JBool False)]"

text \<open>
  \<^verbatim>\<open>addToPendingQueue\<close>: \<^verbatim>\<open>queue.push\<close> throws when the stored queue parses to something that
  is not an array, and the \<^verbatim>\<open>catch\<close> then drops the operation.
\<close>

definition addToPendingQueue :: "string \<Rightarrow> obj \<Rightarrow> string option \<Rightarrow> stamp \<Rightarrow> state \<Rightarrow> state" where
  "addToPendingQueue operationType data collectionName st s =
     (case getPendingSyncQueue s of
        Inl e \<Rightarrow> s
      | Inr queue \<Rightarrow>
          (case asArray queue of
             Inl e \<Rightarrow> s
           | Inr ops \<Rightarrow>
               s\<lparr>localStorage := (localStorage s)(pendingSyncKey \<mapsto>
                    JsonText (JArr (ops @ [pendingOperation operationType data collectionName st])))\<rparr>))"

section \<open>executeWithOfflineSupport\<close>

text \<open>
  The remote call returns a promise, and \<^verbatim>\<open>resultWithTimeout\<close> races it against a timer of
  \<^verbatim>\<open>TIMEOUT_MS\<close>: within the deadline the promise resolves with a value, rejects (or the call
  throws at once), or does neither, and then the timer rejects. The callback sees the state
  it is called in; it is taken not to change the local state itself.
\<close>

datatype promise = Resolves json | Rejects | Pending

datatype failure = RemoteRejected | RemoteTimeout

fun resultWithTimeout :: "promise \<Rightarrow> failure + json" where
  "resultWithTimeout (Resolves v) = Inr v"
| "resultWithTimeout Rejects = Inl RemoteRejected"
| "resultWithTimeout Pending = Inl RemoteTimeout"

text \<open>\<^verbatim>\<open>String.prototype.includes\<close>.\<close>

fun str_includes :: "string \<Rightarrow> string \<Rightarrow> bool" where
  "str_includes sub [] = (sub = [])"
| "str_includes sub (c # cs) = (take (length sub) (c # cs) = sub \<or> str_includes sub cs)"

definition lsOperation :: "string \<Rightarrow> string" where
  "lsOperation operationType =
     (if str_includes ''update'' operationType \<or> str_includes ''Update'' operationType then ''update''
      else if str_includes ''delete'' operationType \<or> str_includes ''Delete'' operationType then ''delete''
      else ''add'')"

text \<open>Truthiness of \<^verbatim>\<open>collectionName\<close>: \<^verbatim>\<open>null\<close> (the default) and \<^verbatim>\<open>''\<close> are falsy.\<close>

fun named :: "string option \<Rightarrow> bool" where
  "named None = False"
| "named (Some c) = (c \<noteq> [])"

definition saveLocally :: "string \<Rightarrow> obj \<Rightarrow> string option \<Rightarrow> state \<Rightarrow> state" where
  "saveLocally operationType data collectionName s =
     (case collectionName of
        None \<Rightarrow> s
      | Some c \<Rightarrow> if named (Some c) then saveToLocalStorage c data (lsOperation operationType) s
                  else s)"

definition localResult :: "string option \<Rightarrow> state \<Rightarrow> error + json" where
  "localResult collectionName s =
     (case collectionName of
        None \<Rightarrow> Inr JNull
      | Some c \<Rightarrow> if named (Some c) then getFromLocalStorage c s else Inr JNull)"

text \<open>
  \<^verbatim>\<open>executeWithOfflineSupport\<close>: what the returned promise settles with (\<open>Inl\<close>: it rejects)
  and the state it leaves.
\<close>

definition executeWithOfflineSupport ::
    "string \<Rightarrow> (state \<Rightarrow> promise) \<Rightarrow> obj \<Rightarrow> string option \<Rightarrow> stamp \<Rightarrow> state \<Rightarrow>
     (error + json) \<times> state" where
  "executeWithOfflineSupport operationType firebaseOperation data collectionName st s =
     (let isActuallyOnline = isOnline s;
          s1 = saveLocally operationType data collectionName s
      in if isActuallyOnline \<and> firebaseDB s1 then
           (case resultWithTimeout (firebaseOperation s1) of
              Inr result \<Rightarrow>
                (Inr result,
                 case collectionName of
                   None \<Rightarrow> s1
                 | Some c \<Rightarrow> if named (Some c) then markAsSynced c data s1 else s1)
            | Inl err \<Rightarrow>
                (let s2 = addToPendingQueue operationType data collectionName st s1
                 in (localResult collectionName s2, s2)))
         else
           (let s2 = addToPendingQueue operationType data collectionName st s1
            in (localResult collectionName s2, s2)))"

section \<open>Connectivity tracking\<close>

text \<open>
  \<^verbatim>\<open>triggerStatusUpdate\<close> dispatches one \<^verbatim>\<open>offlineStatusChanged\<close> event. \<^verbatim>\<open>handleOnline\<close> and
  \<^verbatim>\<open>handleOffline\<close> set the flag again and trigger again; the toast they show is user
  interface only, and the timer \<^verbatim>\<open>handleOnline\<close> sets fires later (see \<open>event\<close> below).
\<close>

definition triggerStatusUpdate :: "state \<Rightarrow> state" where
  "triggerStatusUpdate s = s\<lparr>notified := notified s @ [isOnline s]\<rparr>"

definition handleOnline :: "state \<Rightarrow> state" where
  "handleOnline s = triggerStatusUpdate (s\<lparr>isOnline := True\<rparr>)"

definition handleOffline :: "state \<Rightarrow> state" where
  "handleOffline s = triggerStatusUpdate (s\<lparr>isOnline := False\<rparr>)"

text \<open>
  \<^verbatim>\<open>checkOnlineStatus\<close>, given what \<^verbatim>\<open>navigator.onLine\<close> reports: the new state (the value it
  returns is the new \<open>isOnline\<close>).
\<close>

definition checkOnlineStatus :: "bool \<Rightarrow> state \<Rightarrow> state" where
  "checkOnlineStatus navigatorOnLine s =
     (let wasOnline = isOnline s;
          s1 = s\<lparr>isOnline := navigatorOnLine\<rparr>
      in if wasOnline \<noteq> isOnline s1 then triggerStatusUpdate s1 else s1)"

section \<open>syncPendingData\<close>

text \<open>
  The operation types the \<^verbatim>\<open>switch\<close> of \<^verbatim>\<open>syncPendingData\<close> knows; any other type falls to
  \<^verbatim>\<open>default\<close>, which only logs.
\<close>

definition knownTypes :: "string list" where
  "knownTypes = [''addAttendanceRecord'', ''updateAttendanceRecord'', ''addStudent'',
     ''updateStudent'', ''deleteStudent'', ''createEvent'', ''setCurrentEvent'', ''deleteEvent'',
     ''deleteAttendanceRecordsByEvent'']"

text \<open>
  How the awaited attempt of one operation ends: the \<^verbatim>\<open>try\<close> block of its case ran to its end
  in time (it found or wrote the remote record), a remote call in it threw (the inner
  \<^verbatim>\<open>catch\<close> logs), or the deadline of \<^verbatim>\<open>resultWithTimeout\<close> passed first (the outer \<^verbatim>\<open>catch\<close>
  logs). The remote store itself is outside the model. Only the first ending sets
  \<^verbatim>\<open>operation.synced = true\<close>, and only for a known type with \<^verbatim>\<open>window.firebaseDb\<close> set.
\<close>

datatype attempt = Done | Failed | Late

definition flagged :: "json \<Rightarrow> bool" where
  "flagged operation = truthy (field operation ''synced'')"

definition knownType :: "json \<Rightarrow> bool" where
  "knownType operation =
     (case field operation ''type'' of Some (JStr t) \<Rightarrow> t \<in> set knownTypes | _ \<Rightarrow> False)"

definition settle :: "attempt \<Rightarrow> bool \<Rightarrow> json \<Rightarrow> json" where
  "settle a db operation =
     (if a = Done \<and> db \<and> knownType operation
      then JObj (AList.update ''synced'' (JBool True) (ownProperties operation))
      else operation)"

text \<open>
  The \<^verbatim>\<open>for\<close> loop from the operations still to come: it skips the operations already
  flagged and stops at the first one it has to await, or at the end. Reading
  \<^verbatim>\<open>operation.synced\<close> of a \<^verbatim>\<open>null\<close> entry throws, outside every \<^verbatim>\<open>try\<close>.
\<close>

datatype progress = Finished "json list" | Suspended pass_state | Crashed

fun advance :: "json list \<Rightarrow> json list \<Rightarrow> progress" where
  "advance done [] = Finished done"
| "advance done (operation # rest) =
     (if operation = JNull then Crashed
      else if flagged operation then advance (done @ [operation]) rest
      else Suspended (Awaiting done operation rest))"

text \<open>
  The end of a pass: the operations not flagged are written back in one \<^verbatim>\<open>setItem\<close> and the
  guard is released. (The counters \<^verbatim>\<open>syncedCount\<close> and \<^verbatim>\<open>failedCount\<close> feed the log and a toast
  only.)
\<close>

definition finishPass :: "json list \<Rightarrow> state \<Rightarrow> state" where
  "finishPass queue s =
     s\<lparr>localStorage := (localStorage s)(pendingSyncKey \<mapsto>
          JsonText (JArr (filter (\<lambda>operation. \<not> flagged operation) queue))),
       syncInProgress := False\<rparr>"

text \<open>
  Running the loop until it suspends, ends or throws. An exception leaves the function with
  \<open>syncInProgress\<close> still set: there is no \<^verbatim>\<open>finally\<close>.
\<close>

definition continuePass :: "json list \<Rightarrow> json list \<Rightarrow> state \<Rightarrow> state" where
  "continuePass done rest s =
     (case advance done rest of
        Finished queue \<Rightarrow> finishPass queue s
      | Suspended p \<Rightarrow> s\<lparr>passes := passes s @ [p]\<rparr>
      | Crashed \<Rightarrow> s)"

text \<open>
  \<^verbatim>\<open>queue.length === 0\<close> for a parsed value: \<^verbatim>\<open>null.length\<close> throws; an array and a string
  have their length; an object has the property if it is its own; a number and a boolean
  have none.
\<close>

fun lengthOf :: "json \<Rightarrow> error + json option" where
  "lengthOf JNull = Inl TypeError"
| "lengthOf (JArr xs) = Inr (Some (JNum (int (length xs))))"
| "lengthOf (JStr t) = Inr (Some (JNum (int (length t))))"
| "lengthOf (JObj kvs) = Inr (map_of kvs ''length'')"
| "lengthOf _ = Inr None"

text \<open>
  A call of \<^verbatim>\<open>syncPendingData\<close>, up to its first \<^verbatim>\<open>await\<close> or its return. A stored queue that
  parses to something other than an array ends in a TypeError with the guard set: at once
  for a number, a boolean and an object (\<^verbatim>\<open>for ... of\<close> needs an iterable), and for a string
  at \<^verbatim>\<open>queue.filter\<close>, after its characters have been gone through; the model does not follow
  the awaits of that last case and gives its end state.
\<close>

definition syncPendingData :: "state \<Rightarrow> state" where
  "syncPendingData s =
     (if syncInProgress s then s
      else if \<not> isOnline s then s
      else
        (let s1 = s\<lparr>syncInProgress := True\<rparr> in
         case getPendingSyncQueue s1 of
           Inl e \<Rightarrow> s1
         | Inr queue \<Rightarrow>
             (case lengthOf queue of
                Inl e \<Rightarrow> s1
              | Inr len \<Rightarrow>
                  if len = Some (JNum 0) then s1\<lparr>syncInProgress := False\<rparr>
                  else if \<not> (firebaseDB s1 \<and> firebaseDb s1) then s1\<lparr>syncInProgress := False\<rparr>
                  else (case queue of
                          JArr ops \<Rightarrow> continuePass [] ops s1
                        | _ \<Rightarrow> s1))))"

text \<open>
  The awaited attempt of the \<open>i\<close>-th suspended pass ends: the operation is settled and the
  loop goes on.
\<close>

definition attemptSettled :: "nat \<Rightarrow> attempt \<Rightarrow> state \<Rightarrow> state" where
  "attemptSettled i a s =
     (if i < length (passes s) then
        (case passes s ! i of
           Awaiting done operation rest \<Rightarrow>
             continuePass (done @ [settle a (firebaseDb s) operation]) rest
               (s\<lparr>passes := take i (passes s) @ drop (Suc i) (passes s)\<rparr>))
      else s)"

section \<open>The service as a state machine\<close>

text \<open>
  \<^verbatim>\<open>pendingQueue.length > 0\<close>, the test before the triggered drains. For an object the
  comparison is made on its own \<^verbatim>\<open>length\<close> property when that is a number or a boolean; a
  \<^verbatim>\<open>length\<close> of another kind, which JavaScript first converts to a number, is taken to fail
  the test.
\<close>

fun lengthPositive :: "json \<Rightarrow> error + bool" where
  "lengthPositive JNull = Inl TypeError"
| "lengthPositive (JArr xs) = Inr (xs \<noteq> [])"
| "lengthPositive (JStr t) = Inr (t \<noteq> [])"
| "lengthPositive (JObj kvs) =
     Inr (case map_of kvs ''length'' of Some (JNum n) \<Rightarrow> 0 < n | Some (JBool b) \<Rightarrow> b | _ \<Rightarrow> False)"
| "lengthPositive _ = Inr False"

definition syncIfPending :: "state \<Rightarrow> state" where
  "syncIfPending s =
     (case getPendingSyncQueue s of
        Inl e \<Rightarrow> s
      | Inr pendingQueue \<Rightarrow>
          (case lengthPositive pendingQueue of
             Inl e \<Rightarrow> s
           | Inr b \<Rightarrow> if b then syncPendingData s else s))"

text \<open>
  What can happen to the service, one event at a time (JavaScript runs each callback to its
  end or to its next \<^verbatim>\<open>await\<close>): the listeners and timers the constructor registers; a call of
  \<^verbatim>\<open>checkOnlineStatus\<close>, \<^verbatim>\<open>syncPendingData\<close>, \<^verbatim>\<open>addToPendingQueue\<close> or \<^verbatim>\<open>executeWithOfflineSupport\<close>
  (the last with the outcome of its remote call, taken as one step); and the end of an
  awaited attempt of a drain pass. The callback of the timer that \<^verbatim>\<open>handleOnline\<close> sets is not
  an event of its own: it calls \<^verbatim>\<open>syncPendingData\<close> and then \<^verbatim>\<open>reconcileLocalData\<close>, which acts
  on the state through \<^verbatim>\<open>addToPendingQueue\<close> and a final \<^verbatim>\<open>syncPendingData\<close>, so it is a sequence
  of \<open>SyncCall\<close> and \<open>Enqueue\<close> events.
\<close>

datatype event =
    OnlineEvent
  | OfflineEvent
  | PollTick bool
  | InitialTimer
  | VisibilityChange bool
  | WindowFocus
  | CheckOnlineStatus bool
  | SyncCall
  | AttemptSettled nat attempt
  | Enqueue string obj "string option" stamp
  | Execute string promise obj "string option" stamp

fun step :: "event \<Rightarrow> state \<Rightarrow> state" where
  "step OnlineEvent s = handleOnline (triggerStatusUpdate (s\<lparr>isOnline := True\<rparr>))"
| "step OfflineEvent s = handleOffline (triggerStatusUpdate (s\<lparr>isOnline := False\<rparr>))"
| "step (PollTick navigatorOnLine) s =
     (let wasOnline = isOnline s;
          s1 = s\<lparr>isOnline := navigatorOnLine\<rparr>;
          s2 = (if wasOnline \<noteq> isOnline s1 then
                  (let s' = triggerStatusUpdate s1
                   in if isOnline s' then handleOnline s' else handleOffline s')
                else s1)
      in if isOnline s2 \<and> \<not> syncInProgress s2 then syncIfPending s2 else s2)"
| "step InitialTimer s =
     (let s1 = triggerStatusUpdate s in
      case getPendingSyncQueue s1 of
        Inl e \<Rightarrow> s1
      | Inr pendingQueue \<Rightarrow>
          (case lengthPositive pendingQueue of
             Inl e \<Rightarrow> s1
           | Inr b \<Rightarrow> if isOnline s1 then syncPendingData s1 else s1))"
| "step (VisibilityChange hidden) s =
     (if \<not> hidden \<and> isOnline s then syncIfPending s else s)"
| "step WindowFocus s = (if isOnline s then syncIfPending s else s)"
| "step (CheckOnlineStatus navigatorOnLine) s = checkOnlineStatus navigatorOnLine s"
| "step SyncCall s = syncPendingData s"
| "step (AttemptSettled i a) s = attemptSettled i a s"
| "step (Enqueue operationType data collectionName st) s =
     addToPendingQueue operationType data collectionName st s"
| "step (Execute operationType outcome data collectionName st) s =
     snd (executeWithOfflineSupport operationType (\<lambda>_. outcome) data collectionName st s)"



section \<open>Notions used to state the properties\<close>

text \<open>A parsed value is a list when it is a JSON array.\<close>

fun isArray :: "json \<Rightarrow> bool" where
  "isArray (JArr xs) = True"
| "isArray _ = False"


text \<open>What a stored text parses to, if it is there and parses.\<close>

fun parsed :: "stored option \<Rightarrow> json option" where
  "parsed (Some (JsonText v)) = Some v"
| "parsed _ = None"

text \<open>
  The text \<^verbatim>\<open>getFromLocalStorage\<close> reads for a collection: the one under the collection's own
  key, and the one under the legacy key of \<^verbatim>\<open>attendance\<close> or \<^verbatim>\<open>students\<close> when the own key
  holds nothing (or the empty string).
\<close>

definition collectionText :: "string \<Rightarrow> state \<Rightarrow> stored option" where
  "collectionText collection s =
     (if present (localStorage s (localStoragePrefix @ collection))
        then localStorage s (localStoragePrefix @ collection)
      else if collection = ''attendance'' then localStorage s ''attendanceRecords''
      else if collection = ''students'' then localStorage s ''barcodeStudents''
      else localStorage s (localStoragePrefix @ collection))"

text \<open>
  A service with empty storage, for the worked examples: online or not, no drain running,
  both Firebase handles set.
\<close>

definition idle :: "bool \<Rightarrow> state" where
  "idle online =
     \<lparr>isOnline = online, syncInProgress = False, localStorage = (\<lambda>k. None),
      firebaseDB = True, firebaseDb = True, passes = [], notified = []\<rparr>"

text \<open>The stored pending queue as a list, when it reads as one.\<close>

definition queueOps :: "state \<Rightarrow> json list option" where
  "queueOps s = (case getPendingSyncQueue s of Inr (JArr ops) \<Rightarrow> Some ops | _ \<Rightarrow> None)"







text \<open>
  The stored pending queue is sound when it reads as a list without \<^verbatim>\<open>null\<close> entries (an
  absent key reads as the empty list), and a suspended pass is sound when the operations it
  holds are not \<^verbatim>\<open>null\<close>. \<^verbatim>\<open>addToPendingQueue\<close> and the final write of a pass store nothing else.
\<close>

definition queueSound :: "state \<Rightarrow> bool" where
  "queueSound s \<longleftrightarrow> (case queueOps s of Some ops \<Rightarrow> JNull \<notin> set ops | None \<Rightarrow> False)"

fun passSound :: "pass_state \<Rightarrow> bool" where
  "passSound (Awaiting done operation rest) \<longleftrightarrow> JNull \<notin> set done \<and> operation \<noteq> JNull \<and> JNull \<notin> set rest"








definition withQueue :: "json list \<Rightarrow> state \<Rightarrow> state" where
  "withQueue ops s = s\<lparr>localStorage := (localStorage s)(pendingSyncKey \<mapsto> JsonText (JArr ops))\<rparr>"

text \<open>
  Mutual exclusion of drain passes: at most one pass is suspended, and then the guard is
  set. In a steady state the guard is set only while a pass is suspended, and the queue and
  the pass are sound.
\<close>

definition exclusive :: "state \<Rightarrow> bool" where
  "exclusive s \<longleftrightarrow> length (passes s) \<le> 1 \<and> (passes s \<noteq> [] \<longrightarrow> syncInProgress s)"

definition steady :: "state \<Rightarrow> bool" where
  "steady s \<longleftrightarrow>
     exclusive s \<and> (syncInProgress s \<longrightarrow> passes s \<noteq> []) \<and> queueSound s \<and>
     (\<forall>p\<in>set (passes s). passSound p)"


section \<open>Properties of mergeData\<close>

lemma getKey_not_empty: "getKey uk item = Inr (Some k) \<Longrightarrow> k \<noteq> []"
  by (auto simp: getKey_def split: if_splits)

lemma getKey_keyOf: "item \<noteq> JNull \<Longrightarrow> getKey uk item = Inr (keyOf uk item)"
  by (auto simp: getKey_def keyOf_def)

lemma addUnseen_closed:
  "JNull \<notin> set items \<Longrightarrow>
   addUnseen uk items (S, m) =
     Inr (S \<union> {k. Some k \<in> keyOf uk ` set items}, m @ firstOfKey (keyOf uk) S items)"
proof (induction items arbitrary: S m)
  case Nil
  then show ?case by simp
next
  case (Cons item items)
  then have nn: "item \<noteq> JNull" and rest: "JNull \<notin> set items" by auto
  show ?case
  proof (cases "keyOf uk item")
    case None
    then show ?thesis using Cons.IH[OF rest] getKey_keyOf[OF nn, of uk]
      by (auto simp: image_iff)
  next
    case (Some k)
    then have "k \<noteq> []" using getKey_keyOf[OF nn, of uk] getKey_not_empty by metis
    then show ?thesis using Some Cons.IH[OF rest] getKey_keyOf[OF nn, of uk]
      by (auto simp: image_iff)
  qed
qed

lemma firstOfKey_subset: "set (firstOfKey f S xs) \<subseteq> set xs"
  by (induction xs arbitrary: S) (auto split: option.splits)

lemma firstOfKey_keys:
  "f ` set (firstOfKey f S xs) = {Some k | k. Some k \<in> f ` set xs \<and> k \<notin> S}"
proof (induction xs arbitrary: S)
  case Nil
  then show ?case by simp
next
  case (Cons x xs)
  show ?case
  proof (cases "f x")
    case None
    then show ?thesis using Cons.IH[of S] by (auto simp: image_iff)
  next
    case (Some k)
    show ?thesis
    proof (cases "k \<in> S")
      case True
      then show ?thesis using Some Cons.IH[of S] by (auto simp: image_iff)
    next
      case False
      have "f ` set (firstOfKey f S (x # xs)) = insert (Some k) (f ` set (firstOfKey f (insert k S) xs))"
        using Some False by simp
      also have "\<dots> = insert (Some k) {Some j | j. Some j \<in> f ` set xs \<and> j \<notin> insert k S}"
        using Cons.IH[of "insert k S"] by simp
      also have "\<dots> = {Some j | j. Some j \<in> f ` set (x # xs) \<and> j \<notin> S}"
        using Some False by (auto simp: image_iff)
      finally show ?thesis .
    qed
  qed
qed

lemma firstOfKey_distinct: "distinct (map f (firstOfKey f S xs))"
proof (induction xs arbitrary: S)
  case Nil
  then show ?case by simp
next
  case (Cons x xs)
  show ?case
  proof (cases "f x")
    case None
    then show ?thesis using Cons.IH by simp
  next
    case (Some k)
    have "Some k \<notin> f ` set (firstOfKey f (insert k S) xs)"
      unfolding firstOfKey_keys by auto
    then show ?thesis using Some Cons.IH by auto
  qed
qed

lemma firstOfKey_first:
  "x \<in> set (firstOfKey f S xs) \<Longrightarrow> find (\<lambda>y. f y = f x) xs = Some x"
proof (induction xs arbitrary: S)
  case Nil
  then show ?case by simp
next
  case (Cons y ys)
  show ?case
  proof (cases "f y")
    case None
    then have "x \<in> set (firstOfKey f S ys)" using Cons.prems by simp
    moreover then have "f x \<noteq> None" using firstOfKey_keys[of f S ys] by (auto simp: image_iff) 
    ultimately show ?thesis using Cons.IH None by auto
  next
    case (Some k)
    show ?thesis
    proof (cases "k \<in> S")
      case True
      then have in_rest: "x \<in> set (firstOfKey f S ys)" using Cons.prems Some by simp
      then have "f x \<in> {Some j | j. Some j \<in> f ` set ys \<and> j \<notin> S}"
        using firstOfKey_keys[of f S ys] by blast
      then obtain j where "f x = Some j" "j \<notin> S" by auto
      then have "f x \<noteq> f y" using Some True by auto
      then show ?thesis using Cons.IH[OF in_rest] by auto
    next
      case False
      then have "x = y \<or> x \<in> set (firstOfKey f (insert k S) ys)"
        using Cons.prems Some by auto
      then show ?thesis
      proof
        assume "x = y" then show ?thesis by simp
      next
        assume in_rest: "x \<in> set (firstOfKey f (insert k S) ys)"
        then have "f x \<in> {Some j | j. Some j \<in> f ` set ys \<and> j \<notin> insert k S}"
          using firstOfKey_keys[of f "insert k S" ys] by blast
        then obtain j where "f x = Some j" "j \<notin> insert k S" by auto
        then have "f x \<noteq> f y" using Some by auto
        then show ?thesis using Cons.IH[OF in_rest] by auto
      qed
    qed
  qed
qed

lemma mergeData_closed:
  assumes "JNull \<notin> set L" "JNull \<notin> set R"
  shows "mergeData L R uk =
    Inr (firstOfKey (keyOf uk) {} L @
         firstOfKey (keyOf uk) {k. Some k \<in> keyOf uk ` set L} R)"
  using assms by (simp add: mergeData_def addUnseen_closed)


lemma firstOfKey_keyed:
  "x \<in> set (firstOfKey f S xs) \<Longrightarrow> \<exists>k. f x = Some k \<and> k \<notin> S"
  using firstOfKey_keys[of f S xs] by blast

lemma firstOfKey_set_functional:
  assumes "\<forall>x\<in>set xs. \<forall>y\<in>set xs. f x = f y \<and> f x \<noteq> None \<longrightarrow> x = y"
  shows "set (firstOfKey f S xs) = {x \<in> set xs. \<exists>k. f x = Some k \<and> k \<notin> S}"
proof (rule set_eqI, rule iffI)
  fix x assume "x \<in> set (firstOfKey f S xs)"
  then show "x \<in> {x \<in> set xs. \<exists>k. f x = Some k \<and> k \<notin> S}"
    using firstOfKey_subset[of f S xs] firstOfKey_keyed[of x f S xs] by blast
next
  fix x assume "x \<in> {x \<in> set xs. \<exists>k. f x = Some k \<and> k \<notin> S}"
  then obtain k where x: "x \<in> set xs" "f x = Some k" "k \<notin> S" by blast
  then have "Some k \<in> f ` set (firstOfKey f S xs)"
    unfolding firstOfKey_keys by force
  then obtain y where y: "y \<in> set (firstOfKey f S xs)" "f y = Some k" by force
  then have "y \<in> set xs" using firstOfKey_subset[of f S xs] by blast
  then have "x = y" using assms x y by auto
  then show "x \<in> set (firstOfKey f S xs)" using y by simp
qed

lemma keyed_union:
  "(v \<in> {Some k |k. Some k \<in> A} \<union> {Some k |k. Some k \<in> B \<and> k \<notin> {k. Some k \<in> A}})
     = (v \<in> A \<union> B - {None})"
  by (cases v) auto

text \<open>
  Claim C1. For lists \<open>L\<close> and \<open>R\<close> of records (no \<^verbatim>\<open>null\<close> entries) and every key spec,
  \<^verbatim>\<open>mergeData(L, R, uniqueKey)\<close> returns a list in which no two records have the same key;
  the keys of the result are exactly the keys that occur in \<open>L\<close> or in \<open>R\<close>, so each
  occurs exactly once; and a result record whose key occurs in \<open>L\<close> is the local one,
  namely the first record of \<open>L\<close> with that key.
\<close>

theorem mergeData_unique_keys:
  assumes "JNull \<notin> set L" and "JNull \<notin> set R"
  shows "\<exists>M. mergeData L R uk = Inr M
           \<and> distinct (map (keyOf uk) M)
           \<and> keyOf uk ` set M = keyOf uk ` (set L \<union> set R) - {None}
           \<and> (\<forall>m\<in>set M. keyOf uk m \<in> keyOf uk ` set L \<longrightarrow>
                  find (\<lambda>l. keyOf uk l = keyOf uk m) L = Some m)"
proof -
  let ?f = "keyOf uk"
  let ?KL = "{k. Some k \<in> ?f ` set L}"
  let ?A = "firstOfKey ?f {} L"
  let ?B = "firstOfKey ?f ?KL R"
  have M: "mergeData L R uk = Inr (?A @ ?B)"
    using assms by (rule mergeData_closed)
  have kA: "?f ` set ?A = {Some k | k. Some k \<in> ?f ` set L}"
    using firstOfKey_keys[of ?f "{}" L] by simp
  have kB: "?f ` set ?B = {Some k | k. Some k \<in> ?f ` set R \<and> k \<notin> ?KL}"
    by (rule firstOfKey_keys)
  have disj: "?f ` set ?A \<inter> ?f ` set ?B = {}"
    unfolding kA kB by auto
  have d: "distinct (map ?f (?A @ ?B))"
    using firstOfKey_distinct[of ?f "{}" L] firstOfKey_distinct[of ?f ?KL R] disj
    by simp
  have keys: "?f ` set (?A @ ?B) = ?f ` (set L \<union> set R) - {None}"
  proof -
    have "?f ` set (?A @ ?B) = ?f ` set ?A \<union> ?f ` set ?B" by (simp add: image_Un)
    also have "\<dots> = ?f ` (set L \<union> set R) - {None}"
      unfolding kA kB image_Un by (rule set_eqI) (rule keyed_union)
    finally show ?thesis .
  qed
  have first: "\<forall>m\<in>set (?A @ ?B). ?f m \<in> ?f ` set L \<longrightarrow>
                  find (\<lambda>l. ?f l = ?f m) L = Some m"
  proof (intro ballI impI)
    fix m assume m: "m \<in> set (?A @ ?B)" and inL: "?f m \<in> ?f ` set L"
    have "m \<notin> set ?B"
    proof
      assume "m \<in> set ?B"
      then obtain k where "?f m = Some k" "k \<notin> ?KL"
        using firstOfKey_keyed[of m ?f ?KL R] by blast
      then show False using inL by simp
    qed
    then have "m \<in> set ?A" using m by simp
    then show "find (\<lambda>l. ?f l = ?f m) L = Some m" by (rule firstOfKey_first)
  qed
  show ?thesis using M d keys first by blast
qed

text \<open>
  Claim C10. Whatever the two lists and the key spec, no record for which \<^verbatim>\<open>getKey\<close> answers
  \<^verbatim>\<open>null\<close> is in the result of \<^verbatim>\<open>mergeData\<close>: such a record is dropped even when it occurs
  in the local list only.
\<close>

theorem mergeData_omits_keyless:
  assumes "JNull \<notin> set L" and "JNull \<notin> set R"
  shows "\<exists>M. mergeData L R uk = Inr M \<and> (\<forall>r\<in>set M. getKey uk r \<noteq> Inr None)"
proof -
  let ?f = "keyOf uk"
  let ?M = "firstOfKey ?f {} L @ firstOfKey ?f {k. Some k \<in> ?f ` set L} R"
  have M: "mergeData L R uk = Inr ?M"
    using assms by (rule mergeData_closed)
  have "getKey uk r \<noteq> Inr None" if "r \<in> set ?M" for r
  proof -
    from that obtain k where "?f r = Some k"
      using firstOfKey_keyed[of r ?f] by fastforce
    then show ?thesis by (auto simp: keyOf_def)
  qed
  then show ?thesis using M by blast
qed

text \<open>
  Claim C8, amended. When, within \<open>L\<close> and within \<open>R\<close>, records that share a key are
  identical (in particular when keys are unique in each list), permuting \<open>L\<close> or
  permuting \<open>R\<close> does not change the set of records \<^verbatim>\<open>mergeData\<close> returns.
\<close>

theorem mergeData_permutation:
  assumes "mset L' = mset L" and "mset R' = mset R"
    and "JNull \<notin> set L" and "JNull \<notin> set R"
    and "keyFunctional uk L" and "keyFunctional uk R"
  shows "\<exists>M M'. mergeData L R uk = Inr M \<and> mergeData L' R' uk = Inr M' \<and> set M' = set M"
proof -
  let ?f = "keyOf uk"
  have sL: "set L' = set L" and sR: "set R' = set R"
    using assms(1,2) by (metis set_mset_mset)+
  have fL: "\<forall>x\<in>set L. \<forall>y\<in>set L. ?f x = ?f y \<and> ?f x \<noteq> None \<longrightarrow> x = y"
    and fR: "\<forall>x\<in>set R. \<forall>y\<in>set R. ?f x = ?f y \<and> ?f x \<noteq> None \<longrightarrow> x = y"
    using assms(5,6) by (simp_all add: keyFunctional_def)
  have fL': "\<forall>x\<in>set L'. \<forall>y\<in>set L'. ?f x = ?f y \<and> ?f x \<noteq> None \<longrightarrow> x = y"
    and fR': "\<forall>x\<in>set R'. \<forall>y\<in>set R'. ?f x = ?f y \<and> ?f x \<noteq> None \<longrightarrow> x = y"
    using fL fR sL sR by simp_all
  have M: "mergeData L R uk = Inr (firstOfKey ?f {} L @ firstOfKey ?f {k. Some k \<in> ?f ` set L} R)"
    using assms(3,4) by (rule mergeData_closed)
  have M': "mergeData L' R' uk = Inr (firstOfKey ?f {} L' @ firstOfKey ?f {k. Some k \<in> ?f ` set L'} R')"
    using assms(3,4) sL sR by (intro mergeData_closed) simp_all
  have "set (firstOfKey ?f {} L' @ firstOfKey ?f {k. Some k \<in> ?f ` set L'} R')
      = set (firstOfKey ?f {} L @ firstOfKey ?f {k. Some k \<in> ?f ` set L} R)"
    by (simp add: firstOfKey_set_functional[OF fL] firstOfKey_set_functional[OF fR]
        firstOfKey_set_functional[OF fL'] firstOfKey_set_functional[OF fR'] sL sR)
  then show ?thesis using M M' by blast
qed


text \<open>
  A local and a remote record for student S1 and a remote-only record for S2: the local
  S1 record is kept, the remote S2 record is appended.
\<close>

lemma mergeData_example:
  "mergeData [student ''S1'' ''local''] [student ''S1'' ''remote'', student ''S2'' ''other'']
     ''studentId'' = Inr [student ''S1'' ''local'', student ''S2'' ''other'']"
  by (simp add: mergeData_def getKey_def student_def)

theorem mergeData_unique_keys_witness:
  "JNull \<notin> set [student ''S1'' ''local'']
   \<and> JNull \<notin> set [student ''S1'' ''remote'', student ''S2'' ''other'']
   \<and> mergeData [student ''S1'' ''local''] [student ''S1'' ''remote'', student ''S2'' ''other'']
         ''studentId'' = Inr [student ''S1'' ''local'', student ''S2'' ''other'']
   \<and> (\<exists>M. mergeData [student ''S1'' ''local'']
              [student ''S1'' ''remote'', student ''S2'' ''other''] ''studentId'' = Inr M
           \<and> distinct (map (keyOf ''studentId'') M)
           \<and> keyOf ''studentId'' ` set M =
               keyOf ''studentId'' ` (set [student ''S1'' ''local''] \<union>
                 set [student ''S1'' ''remote'', student ''S2'' ''other'']) - {None}
           \<and> (\<forall>m\<in>set M. keyOf ''studentId'' m \<in> keyOf ''studentId'' ` set [student ''S1'' ''local'']
                 \<longrightarrow> find (\<lambda>l. keyOf ''studentId'' l = keyOf ''studentId'' m)
                       [student ''S1'' ''local''] = Some m))"
proof -
  have l: "JNull \<notin> set [student ''S1'' ''local'']"
    and r: "JNull \<notin> set [student ''S1'' ''remote'', student ''S2'' ''other'']"
    by (simp_all add: student_def)
  show ?thesis
    using mergeData_unique_keys [OF l r, of "''studentId''"] l r mergeData_example by blast
qed

text \<open>
  A record with neither \<^verbatim>\<open>studentId\<close> nor \<^verbatim>\<open>id\<close> has no key under the key spec \<^verbatim>\<open>'id'\<close>; it is
  dropped although it is in the local list.
\<close>

lemma getKey_null_iff:
  "getKey uk item = Inr None \<longleftrightarrow>
     item \<noteq> JNull \<and>
     (uk = ''id'' \<and> \<not> truthy (field item ''studentId'') \<and> \<not> truthy (field item ''id'')
      \<or> uk = ''studentId'' \<and> \<not> truthy (field item ''studentId''))"
  by (auto simp: getKey_def)

theorem mergeData_omits_keyless_witness:
  "JNull \<notin> set [JObj [(''name'', JStr ''Science Fair'')]] \<and> JNull \<notin> set ([] :: json list)
   \<and> getKey ''id'' (JObj [(''name'', JStr ''Science Fair'')]) = Inr None
   \<and> mergeData [JObj [(''name'', JStr ''Science Fair'')]] [] ''id'' = Inr []
   \<and> (\<exists>M. mergeData [JObj [(''name'', JStr ''Science Fair'')]] [] ''id'' = Inr M
          \<and> (\<forall>r\<in>set M. getKey ''id'' r \<noteq> Inr None))"
proof -
  have l: "JNull \<notin> set [JObj [(''name'', JStr ''Science Fair'')]]"
    and r: "JNull \<notin> set ([] :: json list)" by simp_all
  have k: "getKey ''id'' (JObj [(''name'', JStr ''Science Fair'')]) = Inr None"
    by (simp add: getKey_def)
  have m: "mergeData [JObj [(''name'', JStr ''Science Fair'')]] [] ''id'' = Inr []"
    by (simp add: mergeData_def getKey_def)
  show ?thesis
    using mergeData_omits_keyless [OF l r, of "''id''"] l r k m by blast
qed

text \<open>
  Claim C8 as stated fails: two local records with the same \<^verbatim>\<open>studentId\<close> and different
  names. \<^verbatim>\<open>mergeData\<close> keeps the first of them, so swapping them changes the result.
\<close>

theorem mergeData_permutation_counterexample:
  "mset [student ''S1'' ''Ana'', student ''S1'' ''Ben''] = mset [student ''S1'' ''Ben'', student ''S1'' ''Ana'']
   \<and> mergeData [student ''S1'' ''Ana'', student ''S1'' ''Ben''] [] ''studentId'' = Inr [student ''S1'' ''Ana'']
   \<and> mergeData [student ''S1'' ''Ben'', student ''S1'' ''Ana''] [] ''studentId'' = Inr [student ''S1'' ''Ben'']
   \<and> set [student ''S1'' ''Ana''] \<noteq> set [student ''S1'' ''Ben'']"
  by (simp add: mergeData_def getKey_def student_def add.commute)

theorem mergeData_permutation_witness:
  "mset [student ''S2'' ''Ben'', student ''S1'' ''Ana''] = mset [student ''S1'' ''Ana'', student ''S2'' ''Ben'']
   \<and> mset [student ''S3'' ''Cy''] = mset [student ''S3'' ''Cy'']
   \<and> keyFunctional ''studentId'' [student ''S1'' ''Ana'', student ''S2'' ''Ben'']
   \<and> keyFunctional ''studentId'' [student ''S3'' ''Cy'']
   \<and> (\<exists>M M'. mergeData [student ''S1'' ''Ana'', student ''S2'' ''Ben''] [student ''S3'' ''Cy''] ''studentId'' = Inr M
          \<and> mergeData [student ''S2'' ''Ben'', student ''S1'' ''Ana''] [student ''S3'' ''Cy''] ''studentId'' = Inr M'
          \<and> set M' = set M)"
proof -
  have p: "mset [student ''S2'' ''Ben'', student ''S1'' ''Ana''] = mset [student ''S1'' ''Ana'', student ''S2'' ''Ben'']"
    and q: "mset [student ''S3'' ''Cy''] = mset [student ''S3'' ''Cy'']"
    by (simp_all add: add.commute)
  have l: "JNull \<notin> set [student ''S1'' ''Ana'', student ''S2'' ''Ben'']"
    and r: "JNull \<notin> set [student ''S3'' ''Cy'']"
    by (simp_all add: student_def)
  have fl: "keyFunctional ''studentId'' [student ''S1'' ''Ana'', student ''S2'' ''Ben'']"
    and fr: "keyFunctional ''studentId'' [student ''S3'' ''Cy'']"
    by (simp_all add: keyFunctional_def keyOf_def getKey_def student_def)
  show ?thesis
    using mergeData_permutation [OF p q l r fl fr] p q fl fr by blast
qed


section \<open>Reading local storage\<close>

lemma getPendingSyncQueue_value:
  "getPendingSyncQueue s =
     Inr (case parsed (localStorage s pendingSyncKey) of Some v \<Rightarrow> v | None \<Rightarrow> JArr [])"
proof (cases "localStorage s pendingSyncKey")
  case None
  then show ?thesis by (simp add: getPendingSyncQueue_def readQueue_def)
next
  case (Some t)
  then show ?thesis by (cases t) (simp_all add: getPendingSyncQueue_def readQueue_def)
qed

lemma present_parsed: "\<not> present x \<Longrightarrow> parsed x = None"
  by (cases x rule: present.cases) simp_all

lemma read_text:
  "(case (case x of None \<Rightarrow> Inr (JArr []) | Some text \<Rightarrow> if present (Some text) then JSON_parse text else Inr (JArr [])) of
      Inl e \<Rightarrow> Inr (JArr []) | Inr v \<Rightarrow> Inr v)
   = (Inr (case parsed x of Some v \<Rightarrow> v | None \<Rightarrow> JArr []) :: error + json)"
proof (cases x)
  case None
  then show ?thesis by simp
next
  case (Some t)
  then show ?thesis by (cases t) simp_all
qed

lemma getFromLocalStorage_value:
  "getFromLocalStorage c s =
     Inr (case parsed (collectionText c s) of Some v \<Rightarrow> v | None \<Rightarrow> JArr [])"
  unfolding getFromLocalStorage_def readCollection_def collectionText_def Let_def
  by (simp add: read_text)

text \<open>
  Claim C9, amended. \<^verbatim>\<open>getPendingSyncQueue\<close> and \<^verbatim>\<open>getFromLocalStorage\<close> never raise. For every
  stored value they return the empty list when the text they read is absent, empty or does
  not parse, and otherwise the parsed value as it is, which is a list only when the stored
  text is a JSON array. \<^verbatim>\<open>getFromLocalStorage\<close> reads the text of \<open>collectionText\<close>.
\<close>

theorem storage_reads_total:
  "(\<exists>v. getPendingSyncQueue s = Inr v) \<and> (\<exists>v. getFromLocalStorage c s = Inr v)
   \<and> (parsed (localStorage s pendingSyncKey) = None \<longrightarrow> getPendingSyncQueue s = Inr (JArr []))
   \<and> (\<forall>v. parsed (localStorage s pendingSyncKey) = Some v \<longrightarrow> getPendingSyncQueue s = Inr v)
   \<and> (parsed (collectionText c s) = None \<longrightarrow> getFromLocalStorage c s = Inr (JArr []))
   \<and> (\<forall>v. parsed (collectionText c s) = Some v \<longrightarrow> getFromLocalStorage c s = Inr v)"
  by (simp add: getPendingSyncQueue_value getFromLocalStorage_value)

text \<open>
  Claim C9 as stated fails: a stored text that is valid JSON but not an array, here \<^verbatim>\<open>{}\<close>,
  comes back as the object it parses to, not as a list.
\<close>

theorem storage_reads_counterexample:
  "getPendingSyncQueue ((idle False)\<lparr>localStorage := (\<lambda>k. None)(''pendingSyncQueue'' \<mapsto> JsonText (JObj []))\<rparr>)
     = Inr (JObj [])
   \<and> getFromLocalStorage ''students''
       ((idle False)\<lparr>localStorage := (\<lambda>k. None)(''offline_students'' \<mapsto> JsonText (JObj []))\<rparr>)
     = Inr (JObj [])
   \<and> \<not> isArray (JObj [])"
  by (simp add: getPendingSyncQueue_value getFromLocalStorage_value collectionText_def
      pendingSyncKey_def localStoragePrefix_def idle_def)

theorem storage_reads_total_witness:
  "parsed (localStorage ((idle False)\<lparr>localStorage := (\<lambda>k. None)(''pendingSyncQueue'' \<mapsto> BadText)\<rparr>) pendingSyncKey) = None
   \<and> getPendingSyncQueue ((idle False)\<lparr>localStorage := (\<lambda>k. None)(''pendingSyncQueue'' \<mapsto> BadText)\<rparr>) = Inr (JArr [])
   \<and> parsed (collectionText ''students'' ((idle False)\<lparr>localStorage := (\<lambda>k. None)(''pendingSyncQueue'' \<mapsto> BadText)\<rparr>)) = None
   \<and> getFromLocalStorage ''students'' ((idle False)\<lparr>localStorage := (\<lambda>k. None)(''pendingSyncQueue'' \<mapsto> BadText)\<rparr>) = Inr (JArr [])"
proof -
  let ?s = "(idle False)\<lparr>localStorage := (\<lambda>k. None)(''pendingSyncQueue'' \<mapsto> BadText)\<rparr>"
  have a: "parsed (localStorage ?s pendingSyncKey) = None"
    by (simp add: pendingSyncKey_def)
  have b: "parsed (collectionText ''students'' ?s) = None"
    by (simp add: collectionText_def localStoragePrefix_def)
  show ?thesis
    using storage_reads_total [of ?s "''students''"] a b by simp
qed


section \<open>executeWithOfflineSupport\<close>



lemma saveToLocalStorage_other_fields [simp]:
  "isOnline (saveToLocalStorage c d op s) = isOnline s"
  "syncInProgress (saveToLocalStorage c d op s) = syncInProgress s"
  "firebaseDB (saveToLocalStorage c d op s) = firebaseDB s"
  "firebaseDb (saveToLocalStorage c d op s) = firebaseDb s"
  "passes (saveToLocalStorage c d op s) = passes s"
  "notified (saveToLocalStorage c d op s) = notified s"
  by (simp_all add: saveToLocalStorage_def Let_def split: sum.splits)

lemma saveToLocalStorage_queue [simp]:
  "localStorage (saveToLocalStorage c d op s) pendingSyncKey = localStorage s pendingSyncKey"
  by (simp add: saveToLocalStorage_def Let_def localStoragePrefix_def pendingSyncKey_def
      split: sum.splits)


lemma addToPendingQueue_other_fields [simp]:
  "isOnline (addToPendingQueue t d c st s) = isOnline s"
  "syncInProgress (addToPendingQueue t d c st s) = syncInProgress s"
  "firebaseDB (addToPendingQueue t d c st s) = firebaseDB s"
  "firebaseDb (addToPendingQueue t d c st s) = firebaseDb s"
  "passes (addToPendingQueue t d c st s) = passes s"
  "notified (addToPendingQueue t d c st s) = notified s"
  by (simp_all add: addToPendingQueue_def split: sum.splits)











section \<open>The offline add path\<close>











lemma array_findIndex_Some:
  "array_findIndex p xs = Inr (Some i) \<Longrightarrow> i < length xs \<and> p (xs ! i) = Inr True"
proof (induction xs arbitrary: i)
  case Nil
  then show ?case by simp
next
  case (Cons x xs)
  then show ?case
    by (cases i) (auto split: sum.splits if_splits option.splits)
qed

lemma array_findIndex_None:
  "array_findIndex p xs = Inr None \<Longrightarrow> \<forall>x\<in>set xs. p x = Inr False"
  by (induction xs) (auto split: sum.splits if_splits option.splits)










section \<open>Worked examples of the write path\<close>









section \<open>Connectivity notifications\<close>

lemma continuePass_notified [simp]:
  "notified (continuePass d r s) = notified s" "isOnline (continuePass d r s) = isOnline s"
  by (simp_all add: continuePass_def finishPass_def split: progress.splits)

lemma syncPendingData_notified [simp]:
  "notified (syncPendingData s) = notified s" "isOnline (syncPendingData s) = isOnline s"
  by (simp_all add: syncPendingData_def Let_def split: sum.splits json.splits)

lemma syncIfPending_notified [simp]:
  "notified (syncIfPending s) = notified s" "isOnline (syncIfPending s) = isOnline s"
  by (simp_all add: syncIfPending_def split: sum.splits)

text \<open>
  Claim C7, amended. The periodic poll and \<^verbatim>\<open>checkOnlineStatus\<close> dispatch a status-change
  notification only when the online flag actually flips (the poll dispatches two, the check
  one), and the focus and visibility checks dispatch none. The handlers of the browser's
  \<^verbatim>\<open>online\<close> and \<^verbatim>\<open>offline\<close> events dispatch two notifications on every event, whether or
  not the flag flips.
\<close>

theorem notification_on_flip:
  "(b = isOnline s \<longrightarrow>
      notified (step (PollTick b) s) = notified s \<and>
      notified (step (CheckOnlineStatus b) s) = notified s)
   \<and> notified (step (VisibilityChange h) s) = notified s
   \<and> notified (step WindowFocus s) = notified s
   \<and> (b \<noteq> isOnline s \<longrightarrow>
      notified (step (PollTick b) s) = notified s @ [b, b] \<and>
      notified (step (CheckOnlineStatus b) s) = notified s @ [b])
   \<and> notified (step OnlineEvent s) = notified s @ [True, True]
   \<and> notified (step OfflineEvent s) = notified s @ [False, False]"
  by (auto simp: checkOnlineStatus_def triggerStatusUpdate_def handleOnline_def
      handleOffline_def Let_def)

text \<open>
  Claim C7 as stated fails: an \<^verbatim>\<open>online\<close> event delivered while the service is online already
  dispatches two notifications.
\<close>

theorem notification_on_flip_counterexample:
  "isOnline (idle True) \<and> notified (idle True) = []
   \<and> isOnline (step OnlineEvent (idle True))
   \<and> notified (step OnlineEvent (idle True)) = [True, True]"
  by (simp add: idle_def triggerStatusUpdate_def handleOnline_def)

theorem notification_on_flip_witness:
  "True = isOnline (idle True) \<and> False \<noteq> isOnline (idle True)
   \<and> notified (step (PollTick True) (idle True)) = notified (idle True)
   \<and> notified (step (CheckOnlineStatus True) (idle True)) = notified (idle True)
   \<and> notified (step (PollTick False) (idle True)) = notified (idle True) @ [False, False]
   \<and> notified (step (CheckOnlineStatus False) (idle True)) = notified (idle True) @ [False]"
proof -
  have a: "True = isOnline (idle True)" and b: "False \<noteq> isOnline (idle True)"
    by (simp_all add: idle_def)
  show ?thesis
    using notification_on_flip [of True "idle True"] notification_on_flip [of False "idle True"] a b
    by blast
qed


section \<open>Drain passes\<close>




lemma only_pass: "length ps \<le> 1 \<Longrightarrow> i < length ps \<Longrightarrow> ps = [ps ! i]"
  by (cases ps) auto

subsection \<open>Mutual exclusion\<close>

lemma exclusive_frame [simp]:
  "exclusive (s\<lparr>isOnline := b\<rparr>) = exclusive s"
  "exclusive (s\<lparr>notified := n\<rparr>) = exclusive s"
  "exclusive (s\<lparr>localStorage := st\<rparr>) = exclusive s"
  by (simp_all add: exclusive_def)





lemma markAsSynced_fields [simp]:
  "isOnline (markAsSynced c d s) = isOnline s"
  "syncInProgress (markAsSynced c d s) = syncInProgress s"
  "firebaseDB (markAsSynced c d s) = firebaseDB s"
  "firebaseDb (markAsSynced c d s) = firebaseDb s"
  "passes (markAsSynced c d s) = passes s"
  "notified (markAsSynced c d s) = notified s"
  by (simp_all add: markAsSynced_def Let_def split: option.splits sum.splits)

lemma markAsSynced_queue [simp]:
  "localStorage (markAsSynced c d s) pendingSyncKey = localStorage s pendingSyncKey"
  by (simp add: markAsSynced_def Let_def localStoragePrefix_def pendingSyncKey_def
      split: option.splits sum.splits)

lemma execute_fields [simp]:
  "syncInProgress (snd (executeWithOfflineSupport t f d c st s)) = syncInProgress s"
  "passes (snd (executeWithOfflineSupport t f d c st s)) = passes s"
  by (simp_all add: executeWithOfflineSupport_def saveLocally_def Let_def
      split: option.splits sum.splits)




subsection \<open>The guard is released\<close>




lemma steady_frame [simp]:
  "steady (s\<lparr>isOnline := b\<rparr>) = steady s"
  "steady (s\<lparr>notified := n\<rparr>) = steady s"
  by (simp_all add: steady_def exclusive_def queueSound_def queueOps_def
      getPendingSyncQueue_def readQueue_def)


















lemma withQueue_fields [simp]:
  "isOnline (withQueue ops s) = isOnline s"
  "syncInProgress (withQueue ops s) = syncInProgress s"
  "firebaseDB (withQueue ops s) = firebaseDB s"
  "firebaseDb (withQueue ops s) = firebaseDb s"
  "passes (withQueue ops s) = passes s"
  "notified (withQueue ops s) = notified s"
  by (simp_all add: withQueue_def)



text \<open>A stored queue that parses to \<^verbatim>\<open>null\<close>: \<^verbatim>\<open>queue.length\<close> throws after the guard is set.\<close>

lemma guard_stuck_on_unreadable_queue:
  "syncInProgress (syncPendingData ((idle True)\<lparr>localStorage := (\<lambda>k. None)(pendingSyncKey \<mapsto> JsonText JNull)\<rparr>))
   \<and> passes (syncPendingData ((idle True)\<lparr>localStorage := (\<lambda>k. None)(pendingSyncKey \<mapsto> JsonText JNull)\<rparr>)) = []"
  by (simp add: syncPendingData_def Let_def getPendingSyncQueue_def readQueue_def idle_def)

subsection \<open>One pass\<close>

















lemma idle_fields [simp]:
  "isOnline (idle b) = b" "\<not> syncInProgress (idle b)" "firebaseDB (idle b)" "firebaseDb (idle b)"
  "passes (idle b) = []" "notified (idle b) = []"
  by (simp_all add: idle_def)




end
